theory Spec2Isabelle
  imports Main "HOL-Library.Word"
begin

unbundle bit_operations_syntax

section \<open>The JNI cipher of \<^verbatim>\<open>jni_cipher_openssl.c\<close>\<close>

text \<open>
  The file holds three JNI entry points, \<^verbatim>\<open>init\<close>, \<^verbatim>\<open>free\<close> and \<^verbatim>\<open>process\<close>, of the class
  \<^verbatim>\<open>com.velocitypowered.natives.encryption.OpenSslCipherImpl\<close>. They are glue between the
  Java virtual machine (reached through \<^verbatim>\<open>JNIEnv\<close>) and OpenSSL's \<^verbatim>\<open>EVP\<close> interface. The
  entry points are translated line by line; the two collaborators are not part of the
  file and are modelled beside them, each definition saying so.
\<close>

subsection \<open>Data\<close>

type_synonym jbyte = "8 word"
type_synonym jboolean = "8 word"
type_synonym jint = "32 word"
type_synonym jlong = "64 word"

text \<open>A Java exception pending in the calling thread: its class name and its message.\<close>

type_synonym exn = "string \<times> string"

text \<open>
  The ciphers \<^verbatim>\<open>EVP_CipherInit\<close> can be given. The program only ever names
  \<^verbatim>\<open>EVP_aes_128_cfb8()\<close>; the others stand for the rest of OpenSSL's table.
\<close>

datatype evp_cipher = EVP_aes_128_cfb8 | EVP_aes_128_cfb128 | EVP_aes_128_cbc

text \<open>
  \<^verbatim>\<open>EVP_CIPHER_CTX\<close>: the selected cipher (none before initialisation), the key, the
  feedback register (which starts as the initialisation vector) and the direction.
\<close>

record evp_cipher_ctx =
  ctx_cipher :: "evp_cipher option"
  ctx_key :: "jbyte list"
  ctx_iv :: "jbyte list"
  ctx_encrypt :: bool

text \<open>
  What the entry points can see or change: the exception pending in the thread, the
  cipher contexts OpenSSL has allocated and not yet freed (by address), and the native
  memory that holds the buffers handed to \<^verbatim>\<open>process\<close>.
\<close>

record world =
  pending :: "exn option"
  contexts :: "jlong \<rightharpoonup> evp_cipher_ctx"
  memory :: "jlong \<Rightarrow> jbyte"

text \<open>
  What the collaborators decide during one call of \<^verbatim>\<open>init\<close>, outside the program's control:
  the address the allocator has to offer (\<open>0\<close> when it has none), the exception the
  virtual machine raises while copying the key (if any), and the status the cipher
  initialisation reports (\<open>1\<close> is success).
\<close>

record answers =
  ctx_addr :: jlong
  region_raises :: "exn option"
  cipher_init_rc :: int

text \<open>The block cipher under a key: AES-128 in the program, any function here.\<close>

type_synonym block_cipher = "jbyte list \<Rightarrow> jbyte list \<Rightarrow> jbyte list"

text \<open>
  What OpenSSL runs on an update of a context: from the key, the direction, the feedback
  register and the input to the output and the register afterwards, or \<open>None\<close> when the
  cipher reports an error.
\<close>

type_synonym cipher_update =
  "jbyte list \<Rightarrow> bool \<Rightarrow> jbyte list \<Rightarrow> jbyte list \<Rightarrow> (jbyte list \<times> jbyte list) option"

subsection \<open>Native memory\<close>

fun load_bytes :: "(jlong \<Rightarrow> jbyte) \<Rightarrow> jlong \<Rightarrow> nat \<Rightarrow> jbyte list" where
  "load_bytes m a 0 = []"
| "load_bytes m a (Suc n) = m a # load_bytes m (a + 1) n"

fun store_bytes :: "(jlong \<Rightarrow> jbyte) \<Rightarrow> jlong \<Rightarrow> jbyte list \<Rightarrow> (jlong \<Rightarrow> jbyte)" where
  "store_bytes m a [] = m"
| "store_bytes m a (b # bs) = store_bytes (m(a := b)) (a + 1) bs"

subsection \<open>The virtual machine's side: \<^verbatim>\<open>jni.h\<close> and \<^verbatim>\<open>jni_util.h\<close>\<close>

text \<open>
  Modelled from the spec: \<^verbatim>\<open>jni_util.h\<close> and its \<^verbatim>\<open>throwException\<close> are not in the file.
  The spec has each failure reported to the caller as a distinct named condition; the
  helper leaves an exception of the given class and message pending.
\<close>

definition throwException :: "world \<Rightarrow> string \<Rightarrow> string \<Rightarrow> world" where
  "throwException env type msg = env\<lparr>pending := Some (type, msg)\<rparr>"

text \<open>
  Modelled from the spec: the \<^verbatim>\<open>JNIEnv\<close> functions are the calling runtime's. A Java array has
  fewer than \<open>2\<^sup>3\<^sup>1\<close> elements, so \<^verbatim>\<open>jsize\<close> holds its length exactly.
\<close>

definition GetArrayLength :: "jbyte list \<Rightarrow> int" where
  "GetArrayLength array = int (length array)"

text \<open>
  Modelled from the spec: \<^verbatim>\<open>GetByteArrayRegion\<close> copies \<open>len\<close> elements from index \<open>start\<close>;
  a region outside the array leaves an \<^verbatim>\<open>ArrayIndexOutOfBoundsException\<close> pending, and so
  does whatever the virtual machine raises meanwhile. Then nothing is copied.
\<close>

definition GetByteArrayRegion ::
  "exn option \<Rightarrow> world \<Rightarrow> jbyte list \<Rightarrow> int \<Rightarrow> int \<Rightarrow> jbyte list \<times> world" where
  "GetByteArrayRegion raised env array start len =
     (if start < 0 \<or> len < 0 \<or> int (length array) < start + len
      then ([], env\<lparr>pending := Some (''java/lang/ArrayIndexOutOfBoundsException'', [])\<rparr>)
      else case raised of
             Some e \<Rightarrow> ([], env\<lparr>pending := Some e\<rparr>)
           | None \<Rightarrow> (take (nat len) (drop (nat start) array), env))"

definition ExceptionCheck :: "world \<Rightarrow> bool" where
  "ExceptionCheck env = (pending env \<noteq> None)"

subsection \<open>OpenSSL's side: \<^verbatim>\<open>openssl/evp.h\<close>\<close>

definition blank_ctx :: evp_cipher_ctx where
  "blank_ctx = \<lparr>ctx_cipher = None, ctx_key = [], ctx_iv = [], ctx_encrypt = False\<rparr>"

text \<open>
  Modelled from the spec: \<^verbatim>\<open>EVP_CIPHER_CTX_new\<close> allocates the underlying cipher context and
  fails when the backend is out of memory. The allocator is offered the address \<open>p\<close>; it
  returns \<^verbatim>\<open>NULL\<close> when there is none or when \<open>p\<close> is in use, and a blank context at \<open>p\<close>
  otherwise.
\<close>

definition EVP_CIPHER_CTX_new :: "jlong \<Rightarrow> world \<Rightarrow> jlong \<times> world" where
  "EVP_CIPHER_CTX_new p env =
     (if p = 0 \<or> contexts env p \<noteq> None then (0, env)
      else (p, env\<lparr>contexts := (contexts env)(p \<mapsto> blank_ctx)\<rparr>))"

text \<open>
  Modelled from the spec: \<^verbatim>\<open>EVP_CIPHER_CTX_free\<close> frees all backend resources of the context;
  freeing \<^verbatim>\<open>NULL\<close> does nothing.
\<close>

definition EVP_CIPHER_CTX_free :: "world \<Rightarrow> jlong \<Rightarrow> world" where
  "EVP_CIPHER_CTX_free env ctx =
     (if ctx = 0 then env else env\<lparr>contexts := (contexts env)(ctx := None)\<rparr>)"

text \<open>
  Modelled from the spec: \<^verbatim>\<open>EVP_CipherInit\<close> sets the context up for the given cipher, key,
  initialisation vector and direction (\<open>enc\<close> zero decrypts, anything else encrypts), or
  reports an initialisation error, given here as the status \<open>rc\<close>, and leaves the
  context as it was.
\<close>

definition EVP_CipherInit ::
  "int \<Rightarrow> world \<Rightarrow> jlong \<Rightarrow> evp_cipher \<Rightarrow> jbyte list \<Rightarrow> jbyte list \<Rightarrow> int \<Rightarrow> int \<times> world" where
  "EVP_CipherInit rc env ctx cipher key iv enc =
     (case contexts env ctx of
        None \<Rightarrow> (0, env)
      | Some c \<Rightarrow>
          if rc \<noteq> 1 then (rc, env)
          else (1, env\<lparr>contexts := (contexts env)(ctx \<mapsto>
                  \<lparr>ctx_cipher = Some cipher, ctx_key = key, ctx_iv = iv,
                   ctx_encrypt = (enc \<noteq> 0)\<rparr>)\<rparr>))"

text \<open>
  Modelled from the spec: CFB8. One output byte per input byte, each the input byte
  XORed with one byte of the block cipher applied to the feedback register (0 should the
  block function return no byte); the register then drops its oldest byte and takes in
  the ciphertext byte of this position (the output when encrypting, the input when
  decrypting).
\<close>

definition keystream :: "block_cipher \<Rightarrow> jbyte list \<Rightarrow> jbyte list \<Rightarrow> jbyte" where
  "keystream aes key reg = (case aes key reg of [] \<Rightarrow> 0 | b # bs \<Rightarrow> b)"

fun cfb8 ::
  "block_cipher \<Rightarrow> jbyte list \<Rightarrow> bool \<Rightarrow> jbyte list \<Rightarrow> jbyte list \<Rightarrow> jbyte list \<times> jbyte list" where
  "cfb8 aes key enc reg [] = ([], reg)"
| "cfb8 aes key enc reg (x # xs) =
     (let y = x XOR keystream aes key reg;
          c = (if enc then y else x);
          (ys, reg') = cfb8 aes key enc (tl reg @ [c]) xs
      in (y # ys, reg'))"

text \<open>
  Modelled from the spec: the cipher the program selects, AES-128 in CFB8 mode. Its update
  never fails.
\<close>

definition aes_128_cfb8 :: "block_cipher \<Rightarrow> cipher_update" where
  "aes_128_cfb8 aes key enc reg xs = Some (cfb8 aes key enc reg xs)"

text \<open>
  Modelled from the spec: \<^verbatim>\<open>EVP_CipherUpdate\<close> reads \<open>inl\<close> bytes at \<open>inp\<close>, runs them through
  the context's cipher, writes the result at \<open>out\<close>, stores the number of bytes written in
  \<open>outl\<close> and returns \<open>1\<close>; the context's feedback register moves on. What the cipher
  computes is the parameter \<open>upd\<close>; the spec's is \<open>aes_128_cfb8 aes\<close>. The result is the
  status, \<open>outl\<close> and the world.

  Two limits of the model. The input is read whole before anything is written, where the
  library walks the buffers byte by byte: the two agree when source and destination are
  the same buffer or share no byte (\<open>in_place_or_apart\<close> below), and every theorem about the
  bytes written assumes one of the two. And the spec gives \<^verbatim>\<open>process\<close> a live context and
  a length that is not negative: for an address that holds no context, a context not
  initialised for \<^verbatim>\<open>EVP_aes_128_cfb8\<close> or a negative length the model reports an error and
  writes nothing, as it does when the cipher reports one. That answer is an assumption
  of the model, not the library's behaviour.
\<close>

definition EVP_CipherUpdate ::
  "cipher_update \<Rightarrow> world \<Rightarrow> jlong \<Rightarrow> jlong \<Rightarrow> jlong \<Rightarrow> jint \<Rightarrow> int \<times> jint \<times> world" where
  "EVP_CipherUpdate upd env ctx out inp inl =
     (case contexts env ctx of
        None \<Rightarrow> (0, 0, env)
      | Some c \<Rightarrow>
          if ctx_cipher c \<noteq> Some EVP_aes_128_cfb8 \<or> sint inl < 0 then (0, 0, env)
          else
            case upd (ctx_key c) (ctx_encrypt c) (ctx_iv c)
                   (load_bytes (memory env) inp (nat (sint inl))) of
              None \<Rightarrow> (0, 0, env)
            | Some (ys, reg) \<Rightarrow>
                (1, of_nat (length ys),
                 env\<lparr>contexts := (contexts env)(ctx \<mapsto> c\<lparr>ctx_iv := reg\<rparr>),
                     memory := store_bytes (memory env) out ys\<rparr>))"

subsection \<open>The entry points\<close>

text \<open>
  \<^verbatim>\<open>Java_com_velocitypowered_natives_encryption_OpenSslCipherImpl_init\<close>. The result is the
  \<^verbatim>\<open>jlong\<close> returned and the world left behind.
\<close>

definition OpenSslCipherImpl_init ::
  "answers \<Rightarrow> world \<Rightarrow> jbyte list \<Rightarrow> jboolean \<Rightarrow> jlong \<times> world" where
  "OpenSslCipherImpl_init a env key encrypt =
     (let keyLen = GetArrayLength key in
      if keyLen \<noteq> 16 then
        (0, throwException env ''java/lang/IllegalArgumentException'' ''cipher not 16 bytes'')
      else
        let (ctx, env1) = EVP_CIPHER_CTX_new (ctx_addr a) env in
        if ctx = 0 then
          (0, throwException env1 ''java/lang/OutOfMemoryError'' ''allocate cipher'')
        else
          let (keyBytes, env2) = GetByteArrayRegion (region_raises a) env1 key 0 keyLen in
          if ExceptionCheck env2 then (0, env2)
          else
            let (result, env3) =
                  EVP_CipherInit (cipher_init_rc a) env2 ctx EVP_aes_128_cfb8 keyBytes keyBytes
                    (uint encrypt)
            in if result \<noteq> 1 then
                 (0, throwException (EVP_CIPHER_CTX_free env3 ctx)
                       ''java/security/GeneralSecurityException'' ''openssl initialize cipher'')
               else (ctx, env3))"

text \<open>\<^verbatim>\<open>Java_com_velocitypowered_natives_encryption_OpenSslCipherImpl_free\<close>.\<close>

definition OpenSslCipherImpl_free :: "world \<Rightarrow> jlong \<Rightarrow> world" where
  "OpenSslCipherImpl_free env ptr = EVP_CIPHER_CTX_free env ptr"

text \<open>
  \<^verbatim>\<open>Java_com_velocitypowered_natives_encryption_OpenSslCipherImpl_process\<close>. The function is
  \<^verbatim>\<open>void\<close>: the status of \<^verbatim>\<open>EVP_CipherUpdate\<close> is dropped, and so is the output length, which
  is written to the local copy of \<open>len\<close>.
\<close>

definition OpenSslCipherImpl_process ::
  "cipher_update \<Rightarrow> world \<Rightarrow> jlong \<Rightarrow> jlong \<Rightarrow> jint \<Rightarrow> jlong \<Rightarrow> world" where
  "OpenSslCipherImpl_process upd env ptr source len dest =
     (let (result, len', env') = EVP_CipherUpdate upd env ptr dest source len in env')"

subsection \<open>The caller's side\<close>

text \<open>
  A caller that cuts a buffer into consecutive pieces of the given sizes and hands them to
  \<^verbatim>\<open>process\<close> one after the other, each with its own place in the destination.
\<close>

fun process_chunks ::
  "cipher_update \<Rightarrow> world \<Rightarrow> jlong \<Rightarrow> jlong \<Rightarrow> jlong \<Rightarrow> nat list \<Rightarrow> world" where
  "process_chunks upd env ptr source dest [] = env"
| "process_chunks upd env ptr source dest (n # ns) =
     process_chunks upd (OpenSslCipherImpl_process upd env ptr source (of_nat n) dest) ptr
       (source + of_nat n) (dest + of_nat n) ns"

text \<open>
  The two buffers of \<open>n\<close> bytes a caller may pass: the same one (processing in place), or
  two that share no byte, also when the addresses wrap around.
\<close>

definition in_place_or_apart :: "jlong \<Rightarrow> jlong \<Rightarrow> nat \<Rightarrow> bool" where
  "in_place_or_apart source dest n =
     (source = dest \<or> (n \<le> unat (dest - source) \<and> n \<le> unat (source - dest)))"

subsection \<open>A concrete scenario\<close>

text \<open>
  The bytes of \<^verbatim>\<open>Hello, world!\<close>, the key of sixteen zero bytes, collaborators that report
  no fault and offer the address \<open>p\<close>, a world with the greeting at address 4096 and no
  context yet, and a small block function to run the cipher on.
\<close>

definition hello :: "jbyte list" where
  "hello = [72, 101, 108, 108, 111, 44, 32, 119, 111, 114, 108, 100, 33]"

definition zero_key :: "jbyte list" where
  "zero_key = replicate 16 0"

definition no_fault :: "jlong \<Rightarrow> answers" where
  "no_fault p = \<lparr>ctx_addr = p, region_raises = None, cipher_init_rc = 1\<rparr>"

definition start_env :: world where
  "start_env = \<lparr>pending = None, contexts = Map.empty,
                 memory = store_bytes (\<lambda>a. 0) 4096 hello\<rparr>"

definition add_one :: block_cipher where
  "add_one key reg = map (\<lambda>(k, r). k + r + 1) (zip key reg)"

definition encrypt_side :: "jlong \<times> world" where
  "encrypt_side = OpenSslCipherImpl_init (no_fault 65536) start_env zero_key 1"

definition decrypt_side :: "jlong \<times> world" where
  "decrypt_side = OpenSslCipherImpl_init (no_fault 65600) (snd encrypt_side) zero_key 0"

definition second_encrypt_side :: "jlong \<times> world" where
  "second_encrypt_side = OpenSslCipherImpl_init (no_fault 65600) (snd encrypt_side) zero_key 1"

section \<open>Properties\<close>

subsection \<open>Native memory\<close>

lemma length_load_bytes: "length (load_bytes m a n) = n"
  by (induction n arbitrary: a) simp_all

lemma load_bytes_add:
  "load_bytes m a (n + k) = load_bytes m a n @ load_bytes m (a + of_nat n) k"
  by (induction n arbitrary: a) (simp_all add: ac_simps)

lemma store_bytes_append:
  "store_bytes m a (xs @ ys) = store_bytes (store_bytes m a xs) (a + of_nat (length xs)) ys"
  by (induction xs arbitrary: m a) (simp_all add: ac_simps)

lemma unat_pred_region:
  fixes x a :: jlong
  assumes "x \<noteq> a"
  shows "unat (x - (a + 1)) = unat (x - a) - 1"
proof -
  have "x - a \<noteq> 0" using assms by simp
  then have "unat (x - a - 1) = unat (x - a) - 1" by (rule unat_minus_one)
  then show ?thesis by (simp add: diff_diff_eq)
qed

lemma store_bytes_outside:
  "\<not> unat (x - a) < length bs \<Longrightarrow> store_bytes m a bs x = m x"
proof (induction bs arbitrary: m a)
  case Nil
  then show ?case by simp
next
  case (Cons b bs)
  from Cons.prems have ne: "x \<noteq> a" by auto
  with Cons.prems have "\<not> unat (x - (a + 1)) < length bs"
    by (simp add: unat_pred_region)
  then have "store_bytes (m(a := b)) (a + 1) bs x = (m(a := b)) x" by (rule Cons.IH)
  with ne show ?case by simp
qed

lemma load_bytes_cong:
  "(\<And>i. i < n \<Longrightarrow> m' (a + of_nat i) = m (a + of_nat i)) \<Longrightarrow> load_bytes m' a n = load_bytes m a n"
proof (induction n arbitrary: a)
  case 0
  then show ?case by simp
next
  case (Suc n)
  have "m' a = m a" using Suc.prems [of 0] by simp
  moreover have "load_bytes m' (a + 1) n = load_bytes m (a + 1) n"
  proof (rule Suc.IH)
    fix i assume "i < n"
    then show "m' (a + 1 + of_nat i) = m (a + 1 + of_nat i)"
      using Suc.prems [of "Suc i"] by (simp add: add.assoc)
  qed
  ultimately show ?case by simp
qed

lemma load_store_bytes:
  "length bs \<le> 2 ^ 64 \<Longrightarrow> load_bytes (store_bytes m a bs) a (length bs) = bs"
proof (induction bs arbitrary: m a)
  case Nil
  then show ?case by simp
next
  case (Cons b bs)
  have "a - (a + 1) = - 1" by simp
  then have "unat (a - (a + 1)) = 2 ^ 64 - 1"
    by (simp add: unsigned_minus_1_eq_mask mask_eq_exp_minus_1)
  with Cons.prems have "\<not> unat (a - (a + 1)) < length bs" by simp
  then have "store_bytes (m(a := b)) (a + 1) bs a = (m(a := b)) a"
    by (rule store_bytes_outside)
  moreover have "load_bytes (store_bytes (m(a := b)) (a + 1) bs) (a + 1) (length bs) = bs"
    using Cons.prems by (intro Cons.IH) simp
  ultimately show ?case by simp
qed

subsection \<open>Addresses that do not wrap\<close>

lemma unat_minus_plus:
  fixes w :: jlong
  assumes "w \<noteq> 0"
  shows "unat (- w) + unat w = 2 ^ 64"
proof -
  have "unat (- w + w) = (unat (- w) + unat w) mod 2 ^ LENGTH(64)"
    by (rule unat_word_ariths(1))
  then have m: "(unat (- w) + unat w) mod 2 ^ 64 = 0" by simp
  have a: "unat (- w) < 2 ^ 64" using unsigned_less [of "- w"] by simp
  have b: "unat w < 2 ^ 64" using unsigned_less [of w] by simp
  have c: "0 < unat w" using assms by (simp add: unat_gt_0)
  from m obtain q where q: "unat (- w) + unat w = 2 ^ 64 * q" by (auto simp: mod_eq_0_iff_dvd)
  with a b have "2 ^ 64 * q < 2 ^ 64 * (2::nat)" by simp
  then have "q < 2" by simp
  moreover from q c have "q \<noteq> 0" by (cases q) auto
  ultimately have "q = 1" by simp
  with q show ?thesis by simp
qed

lemma apart_offset:
  fixes s d :: jlong
  assumes "n \<le> unat (d - s)" and "n \<le> unat (s - d)" and "j < n"
  shows "unat (s + of_nat j - d) = unat (s - d) + j"
proof -
  have nz: "s - d \<noteq> 0" using assms(2,3) by auto
  have "unat (- (s - d)) + unat (s - d) = 2 ^ 64" by (rule unat_minus_plus [OF nz])
  then have sum: "unat (d - s) + unat (s - d) = 2 ^ 64" by simp
  with assms have small: "unat (s - d) + j < 2 ^ 64" by simp
  then have j: "j < 2 ^ 64" by simp
  have uj: "unat (of_nat j :: jlong) = j" using j by (simp add: unat_of_nat)
  have eq: "s + of_nat j - d = (s - d) + of_nat j" by simp
  have "unat ((s - d) + of_nat j) = unat (s - d) + j"
    using small uj unat_add_lem [of "s - d" "of_nat j"] by simp
  then show ?thesis by (simp only: eq)
qed

lemma same_offset:
  assumes "j < 2 ^ 64"
  shows "unat ((d :: jlong) + of_nat j - d) = j"
  using assms by (simp add: unat_of_nat)

subsection \<open>CFB8\<close>

lemma length_cfb8: "length (fst (cfb8 aes key enc reg xs)) = length xs"
  by (induction xs arbitrary: reg) (simp_all add: Let_def case_prod_unfold)

lemma cfb8_append:
  "cfb8 aes key enc reg (xs @ ys) =
     (fst (cfb8 aes key enc reg xs) @ fst (cfb8 aes key enc (snd (cfb8 aes key enc reg xs)) ys),
      snd (cfb8 aes key enc (snd (cfb8 aes key enc reg xs)) ys))"
  by (induction xs arbitrary: reg) (simp_all add: Let_def case_prod_unfold)

lemma xor_keystream_twice: "(x XOR k) XOR k = (x :: jbyte)"
  by (simp add: xor.assoc)

lemma cfb8_decrypt_encrypt:
  "fst (cfb8 aes key False reg (fst (cfb8 aes key True reg xs))) = xs"
  by (induction xs arbitrary: reg) (simp_all add: Let_def case_prod_unfold xor_keystream_twice)

subsection \<open>What \<^verbatim>\<open>init\<close> returns, path by path\<close>

lemma init_unfold:
  "OpenSslCipherImpl_init a env key encrypt =
     (if length key \<noteq> 16 then
        (0, env\<lparr>pending := Some (''java/lang/IllegalArgumentException'', ''cipher not 16 bytes'')\<rparr>)
      else if ctx_addr a = 0 \<or> contexts env (ctx_addr a) \<noteq> None then
        (0, env\<lparr>pending := Some (''java/lang/OutOfMemoryError'', ''allocate cipher'')\<rparr>)
      else if region_raises a \<noteq> None then
        (0, env\<lparr>contexts := (contexts env)(ctx_addr a \<mapsto> blank_ctx), pending := region_raises a\<rparr>)
      else if pending env \<noteq> None then
        (0, env\<lparr>contexts := (contexts env)(ctx_addr a \<mapsto> blank_ctx)\<rparr>)
      else if cipher_init_rc a \<noteq> 1 then
        (0, env\<lparr>pending := Some (''java/security/GeneralSecurityException'', ''openssl initialize cipher'')\<rparr>)
      else
        (ctx_addr a, env\<lparr>contexts := (contexts env)(ctx_addr a \<mapsto>
           \<lparr>ctx_cipher = Some EVP_aes_128_cfb8, ctx_key = key, ctx_iv = key,
            ctx_encrypt = (encrypt \<noteq> 0)\<rparr>)\<rparr>))"
  by (auto simp: OpenSslCipherImpl_init_def GetArrayLength_def EVP_CIPHER_CTX_new_def
      GetByteArrayRegion_def ExceptionCheck_def EVP_CipherInit_def EVP_CIPHER_CTX_free_def
      throwException_def Let_def fun_upd_idem uint_0_iff split: option.splits)

lemma init_nonzero:
  assumes "OpenSslCipherImpl_init a env key encrypt = (h, env')" and "h \<noteq> 0"
  shows "length key = 16" and "h = ctx_addr a" and "contexts env h = None"
    and "pending env = None"
    and "env' = env\<lparr>contexts := (contexts env)(h \<mapsto>
           \<lparr>ctx_cipher = Some EVP_aes_128_cfb8, ctx_key = key, ctx_iv = key,
            ctx_encrypt = (encrypt \<noteq> 0)\<rparr>)\<rparr>"
  using assms by (auto simp: init_unfold simp del: not_None_eq split: if_splits)

subsection \<open>What \<^verbatim>\<open>process\<close> does to a context that is ready\<close>

lemma process_ready:
  assumes "contexts env ptr = Some c" and "ctx_cipher c = Some EVP_aes_128_cfb8"
    and "0 \<le> sint len"
  shows "OpenSslCipherImpl_process upd env ptr source len dest =
           (case upd (ctx_key c) (ctx_encrypt c) (ctx_iv c)
                   (load_bytes (memory env) source (nat (sint len))) of
              None \<Rightarrow> env
            | Some r \<Rightarrow>
                env\<lparr>contexts := (contexts env)(ptr \<mapsto> c\<lparr>ctx_iv := snd r\<rparr>),
                    memory := store_bytes (memory env) dest (fst r)\<rparr>)"
  using assms
  by (simp add: OpenSslCipherImpl_process_def EVP_CipherUpdate_def split: option.splits)

lemma process_ready_cfb8:
  assumes "contexts env ptr = Some c" and "ctx_cipher c = Some EVP_aes_128_cfb8"
    and "0 \<le> sint len"
  shows "OpenSslCipherImpl_process (aes_128_cfb8 aes) env ptr source len dest =
           env\<lparr>contexts := (contexts env)(ptr \<mapsto> c\<lparr>ctx_iv :=
                   snd (cfb8 aes (ctx_key c) (ctx_encrypt c) (ctx_iv c)
                          (load_bytes (memory env) source (nat (sint len))))\<rparr>),
               memory := store_bytes (memory env) dest
                   (fst (cfb8 aes (ctx_key c) (ctx_encrypt c) (ctx_iv c)
                          (load_bytes (memory env) source (nat (sint len)))))\<rparr>"
  by (simp add: process_ready [OF assms] aes_128_cfb8_def)

lemma process_empty: "OpenSslCipherImpl_process (aes_128_cfb8 aes) env ptr source 0 dest = env"
  by (simp add: OpenSslCipherImpl_process_def EVP_CipherUpdate_def aes_128_cfb8_def map_upd_triv
      split: option.splits)

lemma process_pending:
  "pending (OpenSslCipherImpl_process upd env ptr source len dest) = pending env"
  by (simp add: OpenSslCipherImpl_process_def EVP_CipherUpdate_def
      split: option.splits prod.splits)

lemma process_live:
  "(contexts (OpenSslCipherImpl_process upd env ptr source len dest) p = None) =
     (contexts env p = None)"
  by (simp add: OpenSslCipherImpl_process_def EVP_CipherUpdate_def
      split: option.splits prod.splits)

lemma jint_length_bound: "0 \<le> sint (len :: jint) \<Longrightarrow> nat (sint len) \<le> 2 ^ 64"
proof -
  have "sint len < 2 ^ (LENGTH(32) - 1)" by (rule sint_lt)
  then have "sint len < 2 ^ 64" by simp
  then show ?thesis by (simp add: nat_le_iff)
qed

lemma jint_of_nat_nat: "0 \<le> sint (len :: jint) \<Longrightarrow> of_nat (nat (sint len)) = len"
  by simp

lemma process_output:
  assumes "contexts env ptr = Some c" and "ctx_cipher c = Some EVP_aes_128_cfb8"
    and "0 \<le> sint len"
  shows "load_bytes (memory (OpenSslCipherImpl_process (aes_128_cfb8 aes) env ptr source len dest)) dest
           (nat (sint len)) =
         fst (cfb8 aes (ctx_key c) (ctx_encrypt c) (ctx_iv c)
                (load_bytes (memory env) source (nat (sint len))))"
proof -
  let ?ys = "fst (cfb8 aes (ctx_key c) (ctx_encrypt c) (ctx_iv c)
                (load_bytes (memory env) source (nat (sint len))))"
  have len: "length ?ys = nat (sint len)" by (simp add: length_cfb8 length_load_bytes)
  have "load_bytes (store_bytes (memory env) dest ?ys) dest (length ?ys) = ?ys"
    using jint_length_bound [OF assms(3)] by (intro load_store_bytes) (simp add: len)
  then show ?thesis by (simp add: process_ready_cfb8 [OF assms] len)
qed

lemma process_other_context:
  "p \<noteq> ptr \<Longrightarrow>
   contexts (OpenSslCipherImpl_process upd env ptr source len dest) p = contexts env p"
  by (simp add: OpenSslCipherImpl_process_def EVP_CipherUpdate_def
      split: option.splits prod.splits)

subsection \<open>Pieces and the whole\<close>

lemma later_input_untouched:
  assumes bufs: "in_place_or_apart source dest (n + k)" and small: "n + k < 2 ^ 31"
    and ys: "length ys = n"
  shows "load_bytes (store_bytes m dest ys) (source + of_nat n) k =
         load_bytes m (source + of_nat n) k"
proof (rule load_bytes_cong)
  fix i assume i: "i < k"
  have "n \<le> unat (source + of_nat (n + i) - dest)"
  proof (cases "source = dest")
    case True
    have "n + i < 2 ^ 64" using small i by simp
    then have "unat (dest + of_nat (n + i) - dest) = n + i" by (rule same_offset)
    with True show ?thesis by simp
  next
    case False
    with bufs have "n + k \<le> unat (dest - source)" and "n + k \<le> unat (source - dest)"
      by (simp_all add: in_place_or_apart_def)
    moreover have "n + i < n + k" using i by simp
    ultimately have "unat (source + of_nat (n + i) - dest) = unat (source - dest) + (n + i)"
      by (rule apart_offset)
    then show ?thesis by simp
  qed
  then have "\<not> unat (source + of_nat n + of_nat i - dest) < length ys"
    by (simp add: ys add.assoc)
  then show "store_bytes m dest ys (source + of_nat n + of_nat i) =
             m (source + of_nat n + of_nat i)"
    by (rule store_bytes_outside)
qed

lemma sint_of_nat_jint: "n < 2 ^ 31 \<Longrightarrow> sint (of_nat n :: jint) = int n"
  by (simp add: signed_of_nat signed_take_bit_int_eq_self)

lemma in_place_or_apart_step:
  assumes "in_place_or_apart source dest (n + k)"
  shows "in_place_or_apart (source + of_nat n) (dest + of_nat n) k"
  using assms by (auto simp: in_place_or_apart_def)

lemma process_chunks_whole:
  assumes "contexts env ptr = Some c" and "ctx_cipher c = Some EVP_aes_128_cfb8"
    and "sum_list ns < 2 ^ 31" and "in_place_or_apart source dest (sum_list ns)"
  shows "process_chunks (aes_128_cfb8 aes) env ptr source dest ns =
         OpenSslCipherImpl_process (aes_128_cfb8 aes) env ptr source (of_nat (sum_list ns)) dest"
  using assms
proof (induction ns arbitrary: env c source dest)
  case Nil
  then show ?case by (simp add: process_empty)
next
  case (Cons n ns)
  let ?k = "sum_list ns"
  let ?m = "memory env"
  let ?x1 = "load_bytes ?m source n"
  let ?r1 = "cfb8 aes (ctx_key c) (ctx_encrypt c) (ctx_iv c) ?x1"
  let ?c1 = "c\<lparr>ctx_iv := snd ?r1\<rparr>"
  let ?env1 = "OpenSslCipherImpl_process (aes_128_cfb8 aes) env ptr source (of_nat n) dest"
  from Cons.prems(3) have n: "n < 2 ^ 31" and k: "?k < 2 ^ 31" and nk: "n + ?k < 2 ^ 31"
    by simp_all
  have sn: "0 \<le> sint (of_nat n :: jint)" "nat (sint (of_nat n :: jint)) = n"
    using sint_of_nat_jint [OF n] by simp_all
  have sk: "0 \<le> sint (of_nat ?k :: jint)" "nat (sint (of_nat ?k :: jint)) = ?k"
    using sint_of_nat_jint [OF k] by simp_all
  have snk: "0 \<le> sint (of_nat (n + ?k) :: jint)" "nat (sint (of_nat (n + ?k) :: jint)) = n + ?k"
    using sint_of_nat_jint [OF nk] by simp_all
  have env1: "?env1 = env\<lparr>contexts := (contexts env)(ptr \<mapsto> ?c1),
                       memory := store_bytes ?m dest (fst ?r1)\<rparr>"
    using process_ready_cfb8 [OF Cons.prems(1,2) sn(1), of aes source dest] by (simp add: sn(2))
  have c1: "contexts ?env1 ptr = Some ?c1" by (simp add: env1)
  have c1': "ctx_cipher ?c1 = Some EVP_aes_128_cfb8" using Cons.prems(2) by simp
  have bufs: "in_place_or_apart source dest (n + ?k)" using Cons.prems(4) by simp
  have rest: "process_chunks (aes_128_cfb8 aes) ?env1 ptr (source + of_nat n) (dest + of_nat n) ns =
        OpenSslCipherImpl_process (aes_128_cfb8 aes) ?env1 ptr (source + of_nat n) (of_nat ?k) (dest + of_nat n)"
    using c1 c1' k in_place_or_apart_step [OF bufs] by (rule Cons.IH)
  have x2: "load_bytes (memory ?env1) (source + of_nat n) ?k =
            load_bytes ?m (source + of_nat n) ?k"
    using later_input_untouched [OF bufs nk, of "fst ?r1" ?m]
    by (simp add: env1 length_cfb8 length_load_bytes)
  have whole: "OpenSslCipherImpl_process (aes_128_cfb8 aes) env ptr source (of_nat (n + ?k)) dest =
        OpenSslCipherImpl_process (aes_128_cfb8 aes) ?env1 ptr (source + of_nat n) (of_nat ?k) (dest + of_nat n)"
    unfolding process_ready_cfb8 [OF Cons.prems(1,2) snk(1)] process_ready_cfb8 [OF c1 c1' sk(1)]
      snk(2) sk(2) x2
    by (simp add: env1 load_bytes_add cfb8_append store_bytes_append length_cfb8
        length_load_bytes)
  show ?case using rest whole by simp
qed

section \<open>The scenario, evaluated\<close>

lemma encrypt_side_eq:
  "encrypt_side = (65536, start_env\<lparr>contexts := (contexts start_env)(65536 \<mapsto>
      \<lparr>ctx_cipher = Some EVP_aes_128_cfb8, ctx_key = zero_key, ctx_iv = zero_key,
       ctx_encrypt = True\<rparr>)\<rparr>)"
  by (simp add: encrypt_side_def init_unfold no_fault_def start_env_def zero_key_def)

lemma decrypt_side_eq:
  "decrypt_side = (65600, (snd encrypt_side)\<lparr>contexts := (contexts (snd encrypt_side))(65600 \<mapsto>
      \<lparr>ctx_cipher = Some EVP_aes_128_cfb8, ctx_key = zero_key, ctx_iv = zero_key,
       ctx_encrypt = False\<rparr>)\<rparr>)"
  by (simp add: decrypt_side_def encrypt_side_eq init_unfold no_fault_def start_env_def
      zero_key_def)

lemma second_encrypt_side_eq:
  "second_encrypt_side = (65600, (snd encrypt_side)\<lparr>contexts :=
      (contexts (snd encrypt_side))(65600 \<mapsto>
      \<lparr>ctx_cipher = Some EVP_aes_128_cfb8, ctx_key = zero_key, ctx_iv = zero_key,
       ctx_encrypt = True\<rparr>)\<rparr>)"
  by (simp add: second_encrypt_side_def encrypt_side_eq init_unfold no_fault_def start_env_def
      zero_key_def)

lemma hello_in_memory: "load_bytes (store_bytes (\<lambda>a. 0) 4096 hello) 4096 13 = hello"
proof -
  have "length hello = 13" by (simp add: hello_def)
  with load_store_bytes [of hello "\<lambda>a. 0" 4096] show ?thesis by simp
qed

lemma thirteen: "0 \<le> sint (13 :: jint)" "nat (sint (13 :: jint)) = 13"
  by simp_all

lemma encrypt_side_pair:
  "OpenSslCipherImpl_init (no_fault 65536) start_env zero_key 1 =
     (fst encrypt_side, snd encrypt_side)"
  by (simp add: encrypt_side_def)

lemma encrypt_side_ready:
  "contexts (snd encrypt_side) (fst encrypt_side) =
     Some \<lparr>ctx_cipher = Some EVP_aes_128_cfb8, ctx_key = zero_key, ctx_iv = zero_key,
           ctx_encrypt = True\<rparr>"
  by (simp add: encrypt_side_eq)

section \<open>The claims\<close>

text \<open>
  C1 (round trip). A context built with a 16-byte key for encryption and one built
  with the same key for decryption: what the first writes for a plaintext of \<open>len\<close> bytes,
  given to the second, comes back as the plaintext. Both calls of \<^verbatim>\<open>init\<close> succeeded
  (their handles are not 0), which they only do for a 16-byte key. In each call of
  \<^verbatim>\<open>process\<close> the source and the destination are the same buffer or share no byte.
\<close>

theorem round_trip:
  assumes enc: "OpenSslCipherImpl_init a1 env key encrypt = (e, env1)" "e \<noteq> 0" "encrypt \<noteq> 0"
    and dec: "OpenSslCipherImpl_init a2 env1 key 0 = (d, env2)" "d \<noteq> 0"
    and len: "0 \<le> sint len"
    and bufs: "in_place_or_apart source mid (nat (sint len))"
      "in_place_or_apart mid dest (nat (sint len))"
  shows "load_bytes (memory (OpenSslCipherImpl_process (aes_128_cfb8 aes)
             (OpenSslCipherImpl_process (aes_128_cfb8 aes) env2 e source len mid) d mid len dest))
           dest (nat (sint len)) =
         load_bytes (memory env2) source (nat (sint len))"
proof -
  let ?n = "nat (sint len)"
  let ?pt = "load_bytes (memory env2) source ?n"
  let ?ce = "\<lparr>ctx_cipher = Some EVP_aes_128_cfb8, ctx_key = key, ctx_iv = key,
              ctx_encrypt = True\<rparr>"
  let ?cd = "\<lparr>ctx_cipher = Some EVP_aes_128_cfb8, ctx_key = key, ctx_iv = key,
              ctx_encrypt = False\<rparr>"
  let ?env3 = "OpenSslCipherImpl_process (aes_128_cfb8 aes) env2 e source len mid"
  note e = init_nonzero [OF enc(1,2)] and d = init_nonzero [OF dec]
  have live: "contexts env1 e = Some ?ce" using e(5) enc(3) by simp
  with d(3) have ne: "d \<noteq> e" by auto
  have ce: "contexts env2 e = Some ?ce" using live d(5) ne by simp
  have cd: "contexts env2 d = Some ?cd" using d(5) by simp
  have ct: "load_bytes (memory ?env3) mid ?n = fst (cfb8 aes key True key ?pt)"
    using process_output [OF ce _ len, of aes source mid] by simp
  have cd3: "contexts ?env3 d = Some ?cd"
    using cd ne by (simp add: process_other_context)
  have "load_bytes (memory (OpenSslCipherImpl_process (aes_128_cfb8 aes) ?env3 d mid len dest))
          dest ?n =
        fst (cfb8 aes key False key (load_bytes (memory ?env3) mid ?n))"
    using process_output [OF cd3 _ len, of aes mid dest] by simp
  then show ?thesis by (simp add: ct cfb8_decrypt_encrypt)
qed

theorem round_trip_hello:
  "load_bytes (memory (OpenSslCipherImpl_process (aes_128_cfb8 add_one)
      (OpenSslCipherImpl_process (aes_128_cfb8 add_one) (snd decrypt_side) (fst encrypt_side)
         4096 13 8192)
      (fst decrypt_side) 8192 13 12288)) 12288 13 = hello"
proof -
  have e: "OpenSslCipherImpl_init (no_fault 65536) start_env zero_key 1 =
      (fst encrypt_side, snd encrypt_side)"
    by (simp add: encrypt_side_def)
  have d: "OpenSslCipherImpl_init (no_fault 65600) (snd encrypt_side) zero_key 0 =
      (fst decrypt_side, snd decrypt_side)"
    by (simp add: decrypt_side_def)
  have e0: "fst encrypt_side \<noteq> 0" by (simp add: encrypt_side_eq)
  have d0: "fst decrypt_side \<noteq> 0" by (simp add: decrypt_side_eq)
  have one: "(1 :: jboolean) \<noteq> 0" by simp
  have b1: "in_place_or_apart 4096 8192 (nat (sint (13 :: jint)))"
    by (simp add: in_place_or_apart_def)
  have b2: "in_place_or_apart 8192 12288 (nat (sint (13 :: jint)))"
    by (simp add: in_place_or_apart_def)
  have pt: "load_bytes (memory (snd decrypt_side)) 4096 13 = hello"
    by (simp add: decrypt_side_eq encrypt_side_eq start_env_def hello_in_memory)
  from round_trip [OF e e0 one d d0 thirteen(1) b1 b2, of add_one]
  show ?thesis by (simp add: thirteen(2) pt)
qed

text \<open>
  C2 (bad key length). For a key whose length is not 16, \<^verbatim>\<open>init\<close> returns 0 and leaves
  \<^verbatim>\<open>IllegalArgumentException\<close> "cipher not 16 bytes" pending, which is how the program
  signals the invalid key length. Nothing else of the world changes: no context is
  allocated, and the collaborators' answers are never asked for.
\<close>

theorem init_bad_key_length:
  assumes "length key \<noteq> 16"
  shows "OpenSslCipherImpl_init a env key encrypt =
           (0, env\<lparr>pending :=
                  Some (''java/lang/IllegalArgumentException'', ''cipher not 16 bytes'')\<rparr>) \<and>
         contexts (snd (OpenSslCipherImpl_init a env key encrypt)) = contexts env"
  using assms by (simp add: OpenSslCipherImpl_init_def GetArrayLength_def throwException_def)

theorem init_bad_key_length_three_bytes:
  "OpenSslCipherImpl_init (no_fault 65536) start_env [1, 2, 3] 1 =
     (0, start_env\<lparr>pending :=
            Some (''java/lang/IllegalArgumentException'', ''cipher not 16 bytes'')\<rparr>) \<and>
   contexts (snd (OpenSslCipherImpl_init (no_fault 65536) start_env [1, 2, 3] 1)) =
     contexts start_env"
  using init_bad_key_length [of "[1, 2, 3]" "no_fault 65536" start_env 1] by simp

text \<open>
  C3 (no context leaked by a failed construction). The claim fails on the path where the
  virtual machine has an exception pending after the key was copied: \<^verbatim>\<open>init\<close> returns 0
  there and the context it allocated stays allocated, with no handle for anyone to free
  it. Here the exception is an asynchronous \<^verbatim>\<open>ThreadDeath\<close>. The path next to it, where
  the cipher initialisation fails, does free the context before it returns (the fifth
  case of \<open>init_unfold\<close>).
\<close>

theorem init_key_copy_failure_keeps_context:
  "OpenSslCipherImpl_init
     \<lparr>ctx_addr = 65536, region_raises = Some (''java/lang/ThreadDeath'', []),
      cipher_init_rc = 1\<rparr> start_env zero_key 1 =
   (0, start_env\<lparr>contexts := (contexts start_env)(65536 \<mapsto> blank_ctx),
                 pending := Some (''java/lang/ThreadDeath'', [])\<rparr>)"
  by (simp add: init_unfold start_env_def zero_key_def)

text \<open>
  C4 (a backend error during \<^verbatim>\<open>process\<close>), as amended. A backend error is not surfaced:
  whatever the backend reports, an error included, the exception pending in the thread
  after \<^verbatim>\<open>process\<close> is the one that was pending before, and the same contexts are allocated
  afterwards, so none was released. The function returns no value, so the error is
  dropped. This holds whatever the cipher is.
\<close>

theorem process_surfaces_nothing:
  "pending (OpenSslCipherImpl_process upd env ptr source len dest) = pending env \<and>
   (contexts (OpenSslCipherImpl_process upd env ptr source len dest) p = None) =
     (contexts env p = None)"
  by (simp add: process_pending process_live)

theorem process_surfaces_nothing_failing_cipher:
  "pending (OpenSslCipherImpl_process (\<lambda>key enc reg xs. None) (snd encrypt_side)
      (fst encrypt_side) 4096 13 8192) = None \<and>
   contexts (OpenSslCipherImpl_process (\<lambda>key enc reg xs. None) (snd encrypt_side)
      (fst encrypt_side) 4096 13 8192) (fst encrypt_side) \<noteq> None"
proof -
  have quiet: "pending (snd encrypt_side) = None"
    by (simp add: encrypt_side_eq start_env_def)
  have live: "contexts (snd encrypt_side) (fst encrypt_side) \<noteq> None"
    by (simp add: encrypt_side_ready)
  from process_surfaces_nothing [of "\<lambda>key enc reg xs. None" "snd encrypt_side"
      "fst encrypt_side" 4096 13 8192 "fst encrypt_side"] quiet live
  show ?thesis by simp
qed

text \<open>
  The claim as it was stated fails: on the ready context of the scenario, with a cipher
  whose update reports an error, the backend returns status 0 for the thirteen bytes, and
  \<^verbatim>\<open>process\<close> leaves no exception pending and the context allocated; the world is the one
  before the call.
\<close>

theorem process_swallows_backend_error:
  "fst (EVP_CipherUpdate (\<lambda>key enc reg xs. None) (snd encrypt_side) (fst encrypt_side)
      8192 4096 13) = 0 \<and>
   pending (OpenSslCipherImpl_process (\<lambda>key enc reg xs. None) (snd encrypt_side)
      (fst encrypt_side) 4096 13 8192) = None \<and>
   contexts (OpenSslCipherImpl_process (\<lambda>key enc reg xs. None) (snd encrypt_side)
      (fst encrypt_side) 4096 13 8192) (fst encrypt_side) \<noteq> None \<and>
   OpenSslCipherImpl_process (\<lambda>key enc reg xs. None) (snd encrypt_side) (fst encrypt_side)
      4096 13 8192 = snd encrypt_side"
  by (simp add: OpenSslCipherImpl_process_def EVP_CipherUpdate_def encrypt_side_eq
      start_env_def)

text \<open>
  C5 (what a successful \<^verbatim>\<open>init\<close> sets up). When \<^verbatim>\<open>init\<close> returns a handle other than 0, the
  key had 16 bytes and the context at the handle is initialised for
  \<^verbatim>\<open>EVP_aes_128_cfb8\<close>, with the key as the key and as the initialisation vector, and it
  encrypts exactly when the \<^verbatim>\<open>encrypt\<close> flag is not zero.
\<close>

theorem init_sets_up_aes_128_cfb8:
  assumes "OpenSslCipherImpl_init a env key encrypt = (h, env')" and "h \<noteq> 0"
  shows "length key = 16 \<and>
         contexts env' h = Some \<lparr>ctx_cipher = Some EVP_aes_128_cfb8, ctx_key = key,
           ctx_iv = key, ctx_encrypt = (encrypt \<noteq> 0)\<rparr>"
  using init_nonzero(1,5) [OF assms] by simp

theorem init_sets_up_zero_key:
  "length zero_key = 16 \<and>
   contexts (snd encrypt_side) (fst encrypt_side) =
     Some \<lparr>ctx_cipher = Some EVP_aes_128_cfb8, ctx_key = zero_key, ctx_iv = zero_key,
           ctx_encrypt = True\<rparr>"
proof -
  have "fst encrypt_side \<noteq> 0" by (simp add: encrypt_side_eq)
  from init_sets_up_aes_128_cfb8 [OF encrypt_side_pair this] show ?thesis by simp
qed

text \<open>
  C6 (as many bytes out as in). For a context that is ready and a length \<open>len\<close> of
  \<open>N \<ge> 0\<close> bytes, the backend succeeds and reports \<open>len\<close> bytes written; the cipher's output
  for the \<open>N\<close> input bytes has \<open>N\<close> bytes; \<^verbatim>\<open>process\<close> leaves every byte outside the \<open>N\<close>
  bytes at \<open>dest\<close> as it was; and, the source and the destination being the same buffer
  or sharing no byte, the \<open>N\<close> bytes at \<open>dest\<close> are that output, one byte for each input
  byte.
\<close>

theorem process_writes_len_bytes:
  assumes "contexts env ptr = Some c" and "ctx_cipher c = Some EVP_aes_128_cfb8"
    and "0 \<le> sint len"
  shows "EVP_CipherUpdate (aes_128_cfb8 aes) env ptr dest source len =
           (1, len, OpenSslCipherImpl_process (aes_128_cfb8 aes) env ptr source len dest) \<and>
         length (fst (cfb8 aes (ctx_key c) (ctx_encrypt c) (ctx_iv c)
                   (load_bytes (memory env) source (nat (sint len))))) = nat (sint len) \<and>
         (in_place_or_apart source dest (nat (sint len)) \<longrightarrow>
            load_bytes (memory (OpenSslCipherImpl_process (aes_128_cfb8 aes) env ptr source len
              dest)) dest (nat (sint len)) =
            fst (cfb8 aes (ctx_key c) (ctx_encrypt c) (ctx_iv c)
                   (load_bytes (memory env) source (nat (sint len))))) \<and>
         (\<forall>x. \<not> unat (x - dest) < nat (sint len) \<longrightarrow>
            memory (OpenSslCipherImpl_process (aes_128_cfb8 aes) env ptr source len dest) x =
              memory env x)"
proof -
  let ?ys = "fst (cfb8 aes (ctx_key c) (ctx_encrypt c) (ctx_iv c)
                (load_bytes (memory env) source (nat (sint len))))"
  have len: "length ?ys = nat (sint len)" by (simp add: length_cfb8 length_load_bytes)
  have outl: "(of_nat (length ?ys) :: jint) = len"
    using jint_of_nat_nat [OF assms(3)] by (simp only: len)
  have upd: "EVP_CipherUpdate (aes_128_cfb8 aes) env ptr dest source len =
           (1, len, OpenSslCipherImpl_process (aes_128_cfb8 aes) env ptr source len dest)"
    using assms outl
    by (simp add: OpenSslCipherImpl_process_def EVP_CipherUpdate_def aes_128_cfb8_def
        case_prod_unfold)
  have mem: "memory (OpenSslCipherImpl_process (aes_128_cfb8 aes) env ptr source len dest) =
              store_bytes (memory env) dest ?ys"
    by (simp add: process_ready_cfb8 [OF assms])
  have out: "load_bytes (memory (OpenSslCipherImpl_process (aes_128_cfb8 aes) env ptr source len
              dest)) dest (nat (sint len)) = ?ys"
    by (rule process_output [OF assms])
  have frame: "\<forall>x. \<not> unat (x - dest) < nat (sint len) \<longrightarrow>
            memory (OpenSslCipherImpl_process (aes_128_cfb8 aes) env ptr source len dest) x =
              memory env x"
    by (simp add: mem store_bytes_outside len)
  from upd len out frame show ?thesis by blast
qed

theorem process_writes_thirteen_bytes:
  "EVP_CipherUpdate (aes_128_cfb8 add_one) (snd encrypt_side) (fst encrypt_side) 8192 4096 13 =
     (1, 13, OpenSslCipherImpl_process (aes_128_cfb8 add_one) (snd encrypt_side)
        (fst encrypt_side) 4096 13 8192) \<and>
   load_bytes (memory (OpenSslCipherImpl_process (aes_128_cfb8 add_one) (snd encrypt_side)
     (fst encrypt_side) 4096 13 8192)) 8192 13 =
     [73, 100, 109, 109, 110, 45, 33, 118, 110, 115, 109, 101, 32] \<and>
   memory (OpenSslCipherImpl_process (aes_128_cfb8 add_one) (snd encrypt_side)
     (fst encrypt_side) 4096 13 8192) 8205 = memory (snd encrypt_side) 8205"
proof -
  have far: "\<not> unat (8205 - 8192 :: jlong) < nat (sint (13 :: jint))" by simp
  have bufs: "in_place_or_apart 4096 8192 (nat (sint (13 :: jint)))"
    by (simp add: in_place_or_apart_def)
  have pt: "load_bytes (memory (snd encrypt_side)) 4096 13 = hello"
    by (simp add: encrypt_side_eq start_env_def hello_in_memory)
  have ct: "fst (cfb8 add_one zero_key True zero_key hello) =
      [73, 100, 109, 109, 110, 45, 33, 118, 110, 115, 109, 101, 32]"
    by code_simp
  from process_writes_len_bytes [OF encrypt_side_ready _ thirteen(1), of add_one 8192 4096]
    far bufs
  show ?thesis by (simp add: thirteen(2) pt ct)
qed

text \<open>
  C7 (streaming equivalence). A plaintext of at most \<open>2\<^sup>3\<^sup>1 - 1\<close> bytes, cut into consecutive
  pieces of any sizes \<open>ns\<close> (empty pieces included) and given piece by piece to one freshly
  built context, leaves the world that a single call on the whole plaintext leaves: the
  same bytes at \<open>dest\<close> and the same context. And those bytes are the ones a single call
  writes for the same plaintext on any other context freshly built from the same key and
  \<^verbatim>\<open>encrypt\<close> flag. On either side the source and the destination are the same buffer or
  share no byte.
\<close>

theorem streaming_equivalence:
  assumes one: "OpenSslCipherImpl_init a env0 key encrypt = (p, env)" "p \<noteq> 0"
    and fresh: "OpenSslCipherImpl_init a' env0' key encrypt = (p', env')" "p' \<noteq> 0"
    and size: "sum_list ns < 2 ^ 31"
    and bufs: "in_place_or_apart source dest (sum_list ns)"
    and bufs': "in_place_or_apart source' dest' (sum_list ns)"
    and same: "load_bytes (memory env') source' (sum_list ns) =
               load_bytes (memory env) source (sum_list ns)"
  shows "process_chunks (aes_128_cfb8 aes) env p source dest ns =
           OpenSslCipherImpl_process (aes_128_cfb8 aes) env p source (of_nat (sum_list ns))
             dest \<and>
         load_bytes (memory (process_chunks (aes_128_cfb8 aes) env p source dest ns)) dest
             (sum_list ns) =
           load_bytes (memory (OpenSslCipherImpl_process (aes_128_cfb8 aes) env' p' source'
             (of_nat (sum_list ns)) dest')) dest' (sum_list ns)"
proof -
  let ?n = "sum_list ns"
  let ?c = "\<lparr>ctx_cipher = Some EVP_aes_128_cfb8, ctx_key = key, ctx_iv = key,
             ctx_encrypt = (encrypt \<noteq> 0)\<rparr>"
  have c: "contexts env p = Some ?c" using init_nonzero(5) [OF one] by simp
  have c': "contexts env' p' = Some ?c" using init_nonzero(5) [OF fresh] by simp
  have n: "0 \<le> sint (of_nat ?n :: jint)" "nat (sint (of_nat ?n :: jint)) = ?n"
    using sint_of_nat_jint [OF size] by simp_all
  have whole: "process_chunks (aes_128_cfb8 aes) env p source dest ns =
           OpenSslCipherImpl_process (aes_128_cfb8 aes) env p source (of_nat ?n) dest"
    using c _ size bufs by (rule process_chunks_whole) simp
  have "load_bytes (memory (OpenSslCipherImpl_process (aes_128_cfb8 aes) env p source
          (of_nat ?n) dest)) dest ?n =
        fst (cfb8 aes key (encrypt \<noteq> 0) key (load_bytes (memory env) source ?n))"
    using process_output [OF c _ n(1), of aes source dest] by (simp add: n(2))
  moreover have "load_bytes (memory (OpenSslCipherImpl_process (aes_128_cfb8 aes) env' p'
          source' (of_nat ?n) dest')) dest' ?n =
        fst (cfb8 aes key (encrypt \<noteq> 0) key (load_bytes (memory env') source' ?n))"
    using process_output [OF c' _ n(1), of aes source' dest'] by (simp add: n(2))
  ultimately show ?thesis using whole same by simp
qed

theorem streaming_equivalence_hello:
  "process_chunks (aes_128_cfb8 add_one) (snd encrypt_side) (fst encrypt_side) 4096 8192
     [5, 0, 8] =
     OpenSslCipherImpl_process (aes_128_cfb8 add_one) (snd encrypt_side) (fst encrypt_side)
       4096 13 8192 \<and>
   load_bytes (memory (process_chunks (aes_128_cfb8 add_one) (snd encrypt_side)
     (fst encrypt_side) 4096 8192 [5, 0, 8])) 8192 13 =
   load_bytes (memory (OpenSslCipherImpl_process (aes_128_cfb8 add_one)
     (snd second_encrypt_side) (fst second_encrypt_side) 4096 13 12288)) 12288 13"
proof -
  have s: "OpenSslCipherImpl_init (no_fault 65600) (snd encrypt_side) zero_key 1 =
      (fst second_encrypt_side, snd second_encrypt_side)"
    by (simp add: second_encrypt_side_def)
  have e0: "fst encrypt_side \<noteq> 0" by (simp add: encrypt_side_eq)
  have s0: "fst second_encrypt_side \<noteq> 0" by (simp add: second_encrypt_side_eq)
  have size: "sum_list [5, 0, 8 :: nat] < 2 ^ 31" by simp
  have bufs: "in_place_or_apart 4096 8192 (sum_list [5, 0, 8])"
    by (simp add: in_place_or_apart_def)
  have bufs': "in_place_or_apart 4096 12288 (sum_list [5, 0, 8])"
    by (simp add: in_place_or_apart_def)
  have same: "load_bytes (memory (snd second_encrypt_side)) 4096 (sum_list [5, 0, 8]) =
      load_bytes (memory (snd encrypt_side)) 4096 (sum_list [5, 0, 8])"
    by (simp add: second_encrypt_side_eq)
  have sum: "sum_list [5, 0, 8 :: nat] = 13" by simp
  show ?thesis
    by (rule streaming_equivalence [OF encrypt_side_pair e0 s s0 size bufs bufs' same,
          of add_one, unfolded sum of_nat_numeral])
qed

text \<open>
  C8 (zero-length input). A call of \<^verbatim>\<open>process\<close> with length 0 leaves the whole world as it
  was: no byte is written and no context changes, the feedback register of the context
  included. Every later call therefore sees what it would have seen without it.
\<close>

theorem process_zero_length_noop:
  "OpenSslCipherImpl_process (aes_128_cfb8 aes) env ptr source 0 dest = env"
  by (rule process_empty)

theorem process_zero_length_noop_scenario:
  "OpenSslCipherImpl_process (aes_128_cfb8 add_one) (snd encrypt_side) (fst encrypt_side) 4096 0 8192 =
     snd encrypt_side"
  using process_zero_length_noop [of add_one "snd encrypt_side" "fst encrypt_side" 4096 8192]
  by simp

text \<open>
  C9 (determinism). Two contexts built one after the other from the same key and the
  same \<^verbatim>\<open>encrypt\<close> flag, each given the same \<open>len\<close> bytes: both calls of \<^verbatim>\<open>process\<close> write the
  same bytes \<open>ys\<close>, the ones the cipher computes from the key (as key and as register),
  the flag and the plaintext. This holds whatever the cipher is. The second call finds
  at \<open>source2\<close> the bytes the first call found at \<open>source1\<close>, and in each call the source
  and the destination are the same buffer or share no byte.
\<close>

theorem same_key_same_ciphertext:
  assumes one: "OpenSslCipherImpl_init a1 env key encrypt = (p1, env1)" "p1 \<noteq> 0"
    and two: "OpenSslCipherImpl_init a2 env1 key encrypt = (p2, env2)" "p2 \<noteq> 0"
    and len: "0 \<le> sint len"
    and bufs: "in_place_or_apart source1 dest1 (nat (sint len))"
      "in_place_or_apart source2 dest2 (nat (sint len))"
    and same: "load_bytes (memory (OpenSslCipherImpl_process upd env2 p1 source1 len dest1))
                 source2 (nat (sint len)) =
               load_bytes (memory env2) source1 (nat (sint len))"
    and ys: "upd key (encrypt \<noteq> 0) key (load_bytes (memory env2) source1 (nat (sint len))) =
               Some (ys, reg)"
  shows "memory (OpenSslCipherImpl_process upd env2 p1 source1 len dest1) =
           store_bytes (memory env2) dest1 ys \<and>
         memory (OpenSslCipherImpl_process upd
             (OpenSslCipherImpl_process upd env2 p1 source1 len dest1) p2 source2 len dest2) =
           store_bytes (memory (OpenSslCipherImpl_process upd env2 p1 source1 len dest1))
             dest2 ys"
proof -
  let ?n = "nat (sint len)"
  let ?c = "\<lparr>ctx_cipher = Some EVP_aes_128_cfb8, ctx_key = key, ctx_iv = key,
             ctx_encrypt = (encrypt \<noteq> 0)\<rparr>"
  let ?env3 = "OpenSslCipherImpl_process upd env2 p1 source1 len dest1"
  note i1 = init_nonzero [OF one] and i2 = init_nonzero [OF two]
  have live: "contexts env1 p1 = Some ?c" using i1(5) by simp
  with i2(3) have ne: "p2 \<noteq> p1" by auto
  have c1: "contexts env2 p1 = Some ?c" using live i2(5) ne by simp
  have c2: "contexts env2 p2 = Some ?c" using i2(5) by simp
  have c2': "contexts ?env3 p2 = Some ?c" using c2 ne by (simp add: process_other_context)
  have first: "memory ?env3 = store_bytes (memory env2) dest1 ys"
    using process_ready [OF c1 _ len, of upd source1 dest1] ys by simp
  have "upd key (encrypt \<noteq> 0) key (load_bytes (memory ?env3) source2 ?n) = Some (ys, reg)"
    using same ys by simp
  then have "memory (OpenSslCipherImpl_process upd ?env3 p2 source2 len dest2) =
      store_bytes (memory ?env3) dest2 ys"
    using process_ready [OF c2' _ len, of upd source2 dest2] by simp
  with first show ?thesis by simp
qed

theorem same_key_same_ciphertext_hello:
  "memory (OpenSslCipherImpl_process (aes_128_cfb8 add_one) (snd second_encrypt_side)
      (fst encrypt_side) 4096 13 8192) =
     store_bytes (memory (snd second_encrypt_side)) 8192
       (fst (cfb8 add_one zero_key True zero_key hello)) \<and>
   memory (OpenSslCipherImpl_process (aes_128_cfb8 add_one)
      (OpenSslCipherImpl_process (aes_128_cfb8 add_one) (snd second_encrypt_side)
         (fst encrypt_side) 4096 13 8192)
      (fst second_encrypt_side) 4096 13 12288) =
     store_bytes (memory (OpenSslCipherImpl_process (aes_128_cfb8 add_one)
         (snd second_encrypt_side) (fst encrypt_side) 4096 13 8192)) 12288
       (fst (cfb8 add_one zero_key True zero_key hello))"
proof -
  have s: "OpenSslCipherImpl_init (no_fault 65600) (snd encrypt_side) zero_key 1 =
      (fst second_encrypt_side, snd second_encrypt_side)"
    by (simp add: second_encrypt_side_def)
  have e0: "fst encrypt_side \<noteq> 0" by (simp add: encrypt_side_eq)
  have s0: "fst second_encrypt_side \<noteq> 0" by (simp add: second_encrypt_side_eq)
  have b1: "in_place_or_apart 4096 8192 (nat (sint (13 :: jint)))"
    by (simp add: in_place_or_apart_def)
  have b2: "in_place_or_apart 4096 12288 (nat (sint (13 :: jint)))"
    by (simp add: in_place_or_apart_def)
  have same: "load_bytes (memory (OpenSslCipherImpl_process (aes_128_cfb8 add_one)
      (snd second_encrypt_side) (fst encrypt_side) 4096 (13 :: jint) 8192)) 4096
        (nat (sint (13 :: jint))) =
      load_bytes (memory (snd second_encrypt_side)) 4096 (nat (sint (13 :: jint)))"
    by code_simp
  have pt: "load_bytes (memory (snd second_encrypt_side)) 4096 13 = hello"
    by (simp add: second_encrypt_side_eq encrypt_side_eq start_env_def hello_in_memory)
  have ys: "aes_128_cfb8 add_one zero_key ((1 :: jboolean) \<noteq> 0) zero_key
      (load_bytes (memory (snd second_encrypt_side)) 4096 (nat (sint (13 :: jint)))) =
      Some (fst (cfb8 add_one zero_key True zero_key hello),
            snd (cfb8 add_one zero_key True zero_key hello))"
    by (simp add: aes_128_cfb8_def pt)
  show ?thesis
    by (rule same_key_same_ciphertext [OF encrypt_side_pair e0 s s0 thirteen(1) b1 b2 same ys])
qed

text \<open>
  C10 (the handle). \<^verbatim>\<open>init\<close> returns 0 exactly when one of its steps failed: the key has
  not 16 bytes, the allocator has no free address to give, an exception is pending after
  the key was copied, or the cipher initialisation reports a status other than 1. A
  handle other than 0 comes with no exception pending and names a context that is
  allocated and initialised: an update of a non-negative length on it reports an error
  only when the cipher itself does.
\<close>

theorem init_handle_zero_iff_failed:
  "(fst (OpenSslCipherImpl_init a env key encrypt) = 0) =
     (length key \<noteq> 16 \<or> ctx_addr a = 0 \<or> contexts env (ctx_addr a) \<noteq> None \<or>
      region_raises a \<noteq> None \<or> pending env \<noteq> None \<or> cipher_init_rc a \<noteq> 1) \<and>
   (fst (OpenSslCipherImpl_init a env key encrypt) \<noteq> 0 \<longrightarrow>
      pending (snd (OpenSslCipherImpl_init a env key encrypt)) = None \<and>
      (\<forall>upd out inp inl. 0 \<le> sint inl \<longrightarrow>
         (fst (EVP_CipherUpdate upd (snd (OpenSslCipherImpl_init a env key encrypt))
                (fst (OpenSslCipherImpl_init a env key encrypt)) out inp inl) = 1) =
         (upd key (encrypt \<noteq> 0) key
            (load_bytes (memory env) inp (nat (sint inl))) \<noteq> None)))"
proof -
  have zero: "(fst (OpenSslCipherImpl_init a env key encrypt) = 0) =
     (length key \<noteq> 16 \<or> ctx_addr a = 0 \<or> contexts env (ctx_addr a) \<noteq> None \<or>
      region_raises a \<noteq> None \<or> pending env \<noteq> None \<or> cipher_init_rc a \<noteq> 1)"
    by (simp add: init_unfold del: not_None_eq)
  have ready: "pending (snd (OpenSslCipherImpl_init a env key encrypt)) = None \<and>
      (\<forall>upd out inp inl. 0 \<le> sint inl \<longrightarrow>
         (fst (EVP_CipherUpdate upd (snd (OpenSslCipherImpl_init a env key encrypt))
                (fst (OpenSslCipherImpl_init a env key encrypt)) out inp inl) = 1) =
         (upd key (encrypt \<noteq> 0) key
            (load_bytes (memory env) inp (nat (sint inl))) \<noteq> None))"
    if nz: "fst (OpenSslCipherImpl_init a env key encrypt) \<noteq> 0"
  proof -
    obtain h env' where r: "OpenSslCipherImpl_init a env key encrypt = (h, env')"
      by (cases "OpenSslCipherImpl_init a env key encrypt")
    with nz have h: "h \<noteq> 0" by simp
    note i = init_nonzero [OF r h]
    have "pending env' = None" using i(4,5) by simp
    moreover have "(fst (EVP_CipherUpdate upd env' h out inp inl) = 1) =
        (upd key (encrypt \<noteq> 0) key (load_bytes (memory env) inp (nat (sint inl))) \<noteq> None)"
      if "0 \<le> sint inl" for upd out inp inl
      using that i(5) by (simp add: EVP_CipherUpdate_def del: not_None_eq split: option.splits)
    ultimately show ?thesis by (simp add: r del: not_None_eq)
  qed
  from zero ready show ?thesis by blast
qed

theorem init_handle_scenario:
  "fst (OpenSslCipherImpl_init (no_fault 65536) start_env zero_key 1) = 65536 \<and>
   pending (snd (OpenSslCipherImpl_init (no_fault 65536) start_env zero_key 1)) = None \<and>
   fst (EVP_CipherUpdate (aes_128_cfb8 add_one)
          (snd (OpenSslCipherImpl_init (no_fault 65536) start_env zero_key 1))
          (fst (OpenSslCipherImpl_init (no_fault 65536) start_env zero_key 1)) 8192 4096 13) = 1 \<and>
   fst (OpenSslCipherImpl_init (no_fault 0) start_env zero_key 1) = 0"
proof -
  have h: "fst (OpenSslCipherImpl_init (no_fault 65536) start_env zero_key 1) = 65536"
    using encrypt_side_eq by (simp add: encrypt_side_def)
  then have nz: "fst (OpenSslCipherImpl_init (no_fault 65536) start_env zero_key 1) \<noteq> 0"
    by simp
  have z: "ctx_addr (no_fault 0) = 0" by (simp add: no_fault_def)
  have some: "aes_128_cfb8 add_one zero_key ((1 :: jboolean) \<noteq> 0) zero_key
      (load_bytes (memory start_env) 4096 (nat (sint (13 :: jint)))) \<noteq> None"
    by (simp add: aes_128_cfb8_def)
  from init_handle_zero_iff_failed [of "no_fault 65536" start_env zero_key 1] nz thirteen(1) some
  have "pending (snd (OpenSslCipherImpl_init (no_fault 65536) start_env zero_key 1)) = None \<and>
   fst (EVP_CipherUpdate (aes_128_cfb8 add_one)
          (snd (OpenSslCipherImpl_init (no_fault 65536) start_env zero_key 1))
          (fst (OpenSslCipherImpl_init (no_fault 65536) start_env zero_key 1)) 8192 4096 13) = 1"
    by blast
  moreover from init_handle_zero_iff_failed [of "no_fault 0" start_env zero_key 1] z
  have "fst (OpenSslCipherImpl_init (no_fault 0) start_env zero_key 1) = 0" by blast
  ultimately show ?thesis using h by simp
qed

end
